theory Spec2Isabelle
  imports Main
begin

section \<open>Data model of lib/dns.py\<close>

text \<open>
  The pycares constants \<open>QUERY_TYPE_NS\<close>, \<open>QUERY_TYPE_A\<close>, \<open>QUERY_TYPE_CNAME\<close>.
  \<open>Record.__init__\<close> raises \<open>ValueError\<close> for any other value; the datatype has
  no other value, so that raise has no branch here.
\<close>

datatype query_type = QUERY_TYPE_NS | QUERY_TYPE_A | QUERY_TYPE_CNAME

text \<open>The class \<open>Record\<close>: domain, type, ttl, answer.\<close>

record Record =
  domain :: string
  type :: query_type
  ttl :: int
  answer :: "string list"

text \<open>\<open>Record(domain, query_type, ttl, answer)\<close>; the field is \<open>answer if answer else []\<close>.\<close>

definition Record_init :: "string \<Rightarrow> query_type \<Rightarrow> int \<Rightarrow> string list \<Rightarrow> Record" where
  "Record_init d q t a =
     \<lparr>domain = d, type = q, ttl = t, answer = (if a \<noteq> [] then a else [])\<rparr>"

text \<open>
  What the resolver library hands back: for an A query a list of results with
  \<open>host\<close> and \<open>ttl\<close>, for a CNAME query one result with \<open>cname\<close> and \<open>ttl\<close>, for
  an NS query a list of results with \<open>host\<close>.
\<close>

datatype a_result = A_result (a_host: string) (a_ttl: int)

datatype cname_result = CNAME_result (cname: string) (cname_ttl: int)

datatype ns_result = NS_result (ns_host: string)

text \<open>The exceptions the module can raise or meet.\<close>

datatype error =
    ValueError
  | KeyError string
  | AttributeError
  | UnicodeEncodeError
  | DNSError
  | SystemExit int

section \<open>Domain hierarchy helpers\<close>

text \<open>
  \<open>_is_root_domain\<close>: \<open>domain == _psl.get_public_suffix(domain)\<close>. The public
  suffix list is an external collaborator; its lookup is the parameter \<open>psl\<close>.
\<close>

definition is_root_domain :: "(string \<Rightarrow> string) \<Rightarrow> string \<Rightarrow> bool" where
  "is_root_domain psl d = (d = psl d)"

text \<open>\<open>str.index(c)\<close> for a one-character needle: the first position, or no position
  (where Python raises \<open>ValueError\<close>).\<close>

fun str_index :: "string \<Rightarrow> char \<Rightarrow> nat option" where
  "str_index [] c = None"
| "str_index (x # xs) c = (if x = c then Some 0 else map_option Suc (str_index xs c))"

text \<open>\<open>_parent_domain\<close>: the domain itself when it is a root domain, otherwise
  \<open>domain[domain.index(".")+1:]\<close>.\<close>

definition parent_domain :: "(string \<Rightarrow> string) \<Rightarrow> string \<Rightarrow> error + string" where
  "parent_domain psl d =
     (if is_root_domain psl d then Inr d
      else (case str_index d (CHR ''.'') of
              None \<Rightarrow> Inl ValueError
            | Some i \<Rightarrow> Inr (drop (i + 1) d)))"

section \<open>Process-wide state and the network\<close>

text \<open>
  The strings \<open>"A"\<close> and \<open>"CNAME"\<close> that the two \<open>for query_type in ("A", "CNAME")\<close>
  loops pass to \<open>resolver.query\<close>.
\<close>

datatype qname = QA | QCNAME

text \<open>
  What the process does that an observer can see, in order: queries of the default
  resolver during bootstrap, queries of the fresh resolver of \<open>_query_pan_dns\<close>
  (tagged with the parent domain it was called for), queries of the global
  \<open>_resolver\<close> in \<open>query_a_cname\<close>, and log calls.
\<close>

datatype event =
    BootstrapNS string
  | BootstrapA string
  | BaselineQuery string string qname
  | PipelineQuery string qname
  | LogError string "ns_result list" "error option"
  | LogDebugNS string "string set"
  | LogDebugPan string "string list"
  | LogInfo Record

text \<open>
  The module globals: \<open>_resolver\<close> (\<open>None\<close>, or a resolver bound to a set of name
  server addresses) and \<open>_black_list\<close>, with the trace of events so far.
\<close>

record state =
  resolver :: "string set option"
  black_list :: "string \<rightharpoonup> Record"
  trace :: "event list"

text \<open>
  The DNS as the resolver library answers it; \<open>None\<close> is a raised exception
  (time-out, NXDOMAIN, network failure). \<open>sys_*\<close> is the default resolver
  \<open>aiodns.DNSResolver()\<close>, the others a resolver bound to the given name servers.
\<close>

record network =
  sys_query_ns :: "string \<Rightarrow> ns_result list option"
  sys_query_a :: "string \<Rightarrow> a_result list option"
  query_a :: "string set \<Rightarrow> string \<Rightarrow> a_result list option"
  query_cname :: "string set \<Rightarrow> string \<Rightarrow> cname_result option"

text \<open>
  \<open>thread = threading.Thread(target=f, ...); thread.start(); thread.join()\<close>: the
  target runs to its end; an exception that leaves it (also \<open>SystemExit\<close>) ends
  the thread only and does not reach the caller, which goes on with the globals as
  the target left them.
\<close>

definition run_thread :: "(state \<Rightarrow> (error + unit) \<times> state) \<Rightarrow> state \<Rightarrow> state" where
  "run_thread target s = snd (target s)"

section \<open>Wildcard decision\<close>

text \<open>\<open>_is_pan_dns(record)\<close>, reading the global \<open>_black_list\<close>.\<close>

definition is_pan_dns :: "(string \<Rightarrow> string) \<Rightarrow> state \<Rightarrow> Record \<Rightarrow> error + bool" where
  "is_pan_dns psl s record =
     (case parent_domain psl (domain record) of
        Inl e \<Rightarrow> Inl e
      | Inr p \<Rightarrow>
          (case black_list s p of
             None \<Rightarrow> Inl (KeyError p)
           | Some pan_dns_record \<Rightarrow>
               if answer pan_dns_record = [] then Inr False
               else if type record = QUERY_TYPE_CNAME
                       \<and> list_all (\<lambda>a. a \<in> set (answer pan_dns_record)) (answer record)
                 then Inr True
               else if list_all (\<lambda>a. a \<in> set (answer pan_dns_record)) (answer record)
                       \<and> ttl record = ttl pan_dns_record
                 then Inr True
               else Inr False))"

section \<open>Wildcard baseline populator\<close>

text \<open>
  \<open>record_ not in record.answer\<close> compares a resolver result object with the
  strings of the answer list. Python's \<open>in\<close> is equality of values, and a value
  of one kind never equals a value of the other; \<open>pyval\<close> keeps the two kinds
  apart so that the comparison is the one the source makes.
\<close>

datatype pyval = PStr string | PResult a_result

definition py_in :: "pyval \<Rightarrow> pyval list \<Rightarrow> bool" where
  "py_in v xs = (v \<in> set xs)"

text \<open>\<open>domain.encode("ascii")\<close> succeeds when every character is below 128 and
  raises \<open>UnicodeEncodeError\<close> otherwise.\<close>

definition is_ascii :: "string \<Rightarrow> bool" where
  "is_ascii d = list_all (\<lambda>c. (of_char c :: nat) < 128) d"

text \<open>The inner loop of the A branch:
  \<open>for record_ in records: if record_ not in record.answer: record.answer.append(record_.host)\<close>.\<close>

fun append_hosts :: "a_result list \<Rightarrow> Record \<Rightarrow> Record" where
  "append_hosts [] record = record"
| "append_hosts (record\<^sub>1 # rest) record =
     append_hosts rest
       (if \<not> py_in (PResult record\<^sub>1) (map PStr (answer record))
        then record\<lparr>answer := answer record @ [a_host record\<^sub>1]\<rparr>
        else record)"

text \<open>
  The loop \<open>for query_type in ("A", "CNAME")\<close> of \<open>_query_pan_dns\<close>: each query
  goes to the fresh resolver bound to the name servers \<open>ns\<close>; an exception is
  passed over, an answer is folded into the accumulating record.
\<close>

fun pan_dns_kinds ::
  "network \<Rightarrow> string set \<Rightarrow> string \<Rightarrow> string \<Rightarrow> qname list \<Rightarrow> Record \<Rightarrow> state \<Rightarrow> Record \<times> state"
where
  "pan_dns_kinds net ns domain' sub_domain [] record s = (record, s)"
| "pan_dns_kinds net ns domain' sub_domain (QA # rest) record s =
     pan_dns_kinds net ns domain' sub_domain rest
       (case query_a net ns sub_domain of
          None \<Rightarrow> record
        | Some records \<Rightarrow>
            if records \<noteq> []
            then (append_hosts records record)\<lparr>ttl := a_ttl (hd records)\<rparr>
            else record)
       (s\<lparr>trace := trace s @ [BaselineQuery domain' sub_domain QA]\<rparr>)"
| "pan_dns_kinds net ns domain' sub_domain (QCNAME # rest) record s =
     pan_dns_kinds net ns domain' sub_domain rest
       (case query_cname net ns sub_domain of
          None \<Rightarrow> record
        | Some records \<Rightarrow>
            if cname records \<notin> set (answer record)
            then (if cname_ttl records \<noteq> 0
                  then record\<lparr>answer := answer record @ [cname records], ttl := cname_ttl records\<rparr>
                  else record\<lparr>answer := answer record @ [cname records]\<rparr>)
            else record)
       (s\<lparr>trace := trace s @ [BaselineQuery domain' sub_domain QCNAME]\<rparr>)"

text \<open>
  \<open>_query_pan_dns(domain)\<close>. \<open>md5\<close> stands for
  \<open>hashlib.md5(domain.encode("ascii")).hexdigest()\<close>. \<open>_resolver.nameservers\<close>
  raises \<open>AttributeError\<close> while \<open>_resolver\<close> is \<open>None\<close>.
\<close>

definition query_pan_dns ::
  "(string \<Rightarrow> string) \<Rightarrow> network \<Rightarrow> string \<Rightarrow> state \<Rightarrow> (error + unit) \<times> state"
where
  "query_pan_dns md5 net domain' s =
     (case resolver s of
        None \<Rightarrow> (Inl AttributeError, s)
      | Some ns \<Rightarrow>
          if \<not> is_ascii domain' then (Inl UnicodeEncodeError, s)
          else
            (let sub_domain = md5 domain' @ ''.'' @ domain';
                 (record, s1) =
                    pan_dns_kinds net ns domain' sub_domain [QA, QCNAME]
                      (Record_init domain' QUERY_TYPE_A (- 1) []) s;
                 s2 = (if answer record \<noteq> []
                       then s1\<lparr>trace := trace s1 @ [LogDebugPan domain' (answer record)]\<rparr>
                       else s1)
             in (Inr (), s2\<lparr>black_list := (black_list s2)(domain' \<mapsto> record)\<rparr>)))"

section \<open>Query pipeline\<close>

text \<open>
  The loop \<open>for query_type in ("A", "CNAME")\<close> of \<open>query_a_cname\<close>. While
  \<open>_resolver\<close> is \<open>None\<close> the call \<open>_resolver.query\<close> raises inside the \<open>try\<close>
  and the bare \<open>except\<close> passes over it, so nothing is sent. The loop leaves at
  the first record it builds.
\<close>

fun query_kinds :: "network \<Rightarrow> string \<Rightarrow> qname list \<Rightarrow> state \<Rightarrow> Record option \<times> state" where
  "query_kinds net domain' [] s = (None, s)"
| "query_kinds net domain' (QA # rest) s =
     (case resolver s of
        None \<Rightarrow> query_kinds net domain' rest s
      | Some ns \<Rightarrow>
          (case query_a net ns domain' of
             None \<Rightarrow> query_kinds net domain' rest (s\<lparr>trace := trace s @ [PipelineQuery domain' QA]\<rparr>)
           | Some records \<Rightarrow>
               if records \<noteq> []
               then (Some (Record_init domain' QUERY_TYPE_A (a_ttl (hd records)) (map a_host records)),
                     s\<lparr>trace := trace s @ [PipelineQuery domain' QA]\<rparr>)
               else query_kinds net domain' rest (s\<lparr>trace := trace s @ [PipelineQuery domain' QA]\<rparr>)))"
| "query_kinds net domain' (QCNAME # rest) s =
     (case resolver s of
        None \<Rightarrow> query_kinds net domain' rest s
      | Some ns \<Rightarrow>
          (case query_cname net ns domain' of
             None \<Rightarrow> query_kinds net domain' rest (s\<lparr>trace := trace s @ [PipelineQuery domain' QCNAME]\<rparr>)
           | Some records \<Rightarrow>
               (Some (Record_init domain' QUERY_TYPE_CNAME
                        (if cname_ttl records \<noteq> 0 then cname_ttl records else - 1)
                        [cname records]),
                s\<lparr>trace := trace s @ [PipelineQuery domain' QCNAME]\<rparr>)))"

text \<open>\<open>query_a_cname(domain)\<close>: the result is \<open>None\<close> or a record; an exception of
  \<open>_parent_domain\<close> or \<open>_is_pan_dns\<close> leaves the coroutine.\<close>

definition query_a_cname ::
  "(string \<Rightarrow> string) \<Rightarrow> (string \<Rightarrow> string) \<Rightarrow> network \<Rightarrow> string \<Rightarrow> state
     \<Rightarrow> (error + Record option) \<times> state"
where
  "query_a_cname psl md5 net domain' s =
     (case parent_domain psl domain' of
        Inl e \<Rightarrow> (Inl e, s)
      | Inr parent \<Rightarrow>
          (let s1 = (if black_list s parent = None
                     then run_thread (query_pan_dns md5 net parent) s
                     else s);
               (record, s2) = query_kinds net domain' [QA, QCNAME] s1
           in (case record of
                 None \<Rightarrow> (Inr None, s2)
               | Some r \<Rightarrow>
                   (case is_pan_dns psl s2 r of
                      Inl e \<Rightarrow> (Inl e, s2)
                    | Inr pan \<Rightarrow> (Inr (if pan then None else Some r), s2)))))"

section \<open>Resolver bootstrap\<close>

text \<open>\<open>asyncio.gather\<close> without \<open>return_exceptions\<close>: the list of all results, or
  the exception of a query that raised.\<close>

fun gather :: "'a option list \<Rightarrow> 'a list option" where
  "gather [] = Some []"
| "gather (x # xs) =
     (case x of None \<Rightarrow> None | Some v \<Rightarrow> map_option ((#) v) (gather xs))"

text \<open>\<open>for a_record in a_records: for a in a_record: ns_servers.add(a.host)\<close>.\<close>

definition add_hosts :: "a_result list list \<Rightarrow> string set \<Rightarrow> string set" where
  "add_hosts a_records ns_servers =
     fold (\<lambda>a_record acc. fold (\<lambda>a acc'. insert (a_host a) acc') a_record acc) a_records ns_servers"

text \<open>
  \<open>_query_ns(domain, loop)\<close>. \<open>exit(1)\<close> raises \<open>SystemExit(1)\<close>. Every A query of
  the batch is started before the first result is awaited.
\<close>

definition query_ns :: "network \<Rightarrow> string \<Rightarrow> state \<Rightarrow> (error + unit) \<times> state" where
  "query_ns net domain' s =
     (let s1 = s\<lparr>trace := trace s @ [BootstrapNS domain']\<rparr>;
          (ns_records, exception) =
             (case sys_query_ns net domain' of
                None \<Rightarrow> ([], Some DNSError)
              | Some rs \<Rightarrow> (rs, None))
      in if exception \<noteq> None \<or> ns_records = []
         then (Inl (SystemExit 1),
               s1\<lparr>trace := trace s1 @ [LogError domain' ns_records exception]\<rparr>)
         else
           (let s2 = s1\<lparr>trace := trace s1 @ map (\<lambda>ns_record. BootstrapA (ns_host ns_record)) ns_records\<rparr>
            in (case gather (map (\<lambda>ns_record. sys_query_a net (ns_host ns_record)) ns_records) of
                  None \<Rightarrow> (Inl DNSError, s2)
                | Some a_records \<Rightarrow>
                    (let ns_servers = add_hosts a_records {}
                     in (Inr (),
                         s2\<lparr>trace := trace s2 @ [LogDebugNS domain' ns_servers],
                            resolver := Some ns_servers\<rparr>)))))"

text \<open>
  The \<open>while True\<close> loop of \<open>query_loop\<close> over the items the queue will deliver:
  \<open>None\<close> is the sentinel. When the items run out before a sentinel,
  \<open>queue.get()\<close> never returns: the outcome \<open>None\<close>, with the globals as they
  are then. Otherwise the outcome is the exception that left the coroutine or
  its normal return.
\<close>

fun consume ::
  "(string \<Rightarrow> string) \<Rightarrow> (string \<Rightarrow> string) \<Rightarrow> network \<Rightarrow> string option list \<Rightarrow> state
     \<Rightarrow> (error + unit) option \<times> state"
where
  "consume psl md5 net [] s = (None, s)"
| "consume psl md5 net (None # queue) s = (Some (Inr ()), s)"
| "consume psl md5 net (Some sub_domain # queue) s =
     (case query_a_cname psl md5 net sub_domain s of
        (Inl e, s') \<Rightarrow> (Some (Inl e), s')
      | (Inr None, s') \<Rightarrow> consume psl md5 net queue s'
      | (Inr (Some record), s') \<Rightarrow>
          consume psl md5 net queue (s'\<lparr>trace := trace s' @ [LogInfo record]\<rparr>))"

text \<open>\<open>query_loop(domain, queue)\<close>: the bootstrap thread when there is no resolver
  yet, then the loop.\<close>

definition query_loop ::
  "(string \<Rightarrow> string) \<Rightarrow> (string \<Rightarrow> string) \<Rightarrow> network \<Rightarrow> string \<Rightarrow> string option list \<Rightarrow> state
     \<Rightarrow> (error + unit) option \<times> state"
where
  "query_loop psl md5 net domain' queue s =
     consume psl md5 net queue
       (if resolver s = None then run_thread (query_ns net domain') s else s)"

text \<open>The module as imported: no resolver, an empty black list, nothing done yet.\<close>

definition initial_state :: state where
  "initial_state = \<lparr>resolver = None, black_list = Map.empty, trace = []\<rparr>"

section \<open>Reading the trace\<close>

text \<open>The queries \<open>_query_pan_dns\<close> sent for the parent domain \<open>p\<close>, and the queries
  \<open>query_a_cname\<close> sent through the global resolver.\<close>

fun is_baseline_query :: "string \<Rightarrow> event \<Rightarrow> bool" where
  "is_baseline_query p (BaselineQuery q h k) = (q = p)"
| "is_baseline_query p (BootstrapNS h) = False"
| "is_baseline_query p (BootstrapA h) = False"
| "is_baseline_query p (PipelineQuery h k) = False"
| "is_baseline_query p (LogError h rs e) = False"
| "is_baseline_query p (LogDebugNS h ns) = False"
| "is_baseline_query p (LogDebugPan h a) = False"
| "is_baseline_query p (LogInfo r) = False"

definition baseline_queries :: "string \<Rightarrow> event list \<Rightarrow> event list" where
  "baseline_queries p tr = filter (is_baseline_query p) tr"

fun is_pipeline_query :: "event \<Rightarrow> bool" where
  "is_pipeline_query (PipelineQuery h k) = True"
| "is_pipeline_query (BaselineQuery q h k) = False"
| "is_pipeline_query (BootstrapNS h) = False"
| "is_pipeline_query (BootstrapA h) = False"
| "is_pipeline_query (LogError h rs e) = False"
| "is_pipeline_query (LogDebugNS h ns) = False"
| "is_pipeline_query (LogDebugPan h a) = False"
| "is_pipeline_query (LogInfo r) = False"

definition pipeline_queries :: "event list \<Rightarrow> event list" where
  "pipeline_queries tr = filter is_pipeline_query tr"

text \<open>The two queries of one population for the parent \<open>p\<close>, as the trace shows
  them.\<close>

definition baseline_pair :: "(string \<Rightarrow> string) \<Rightarrow> string \<Rightarrow> event list" where
  "baseline_pair md5 p =
     [BaselineQuery p (md5 p @ ''.'' @ p) QA, BaselineQuery p (md5 p @ ''.'' @ p) QCNAME]"

section \<open>Concrete zones\<close>

text \<open>
  A public suffix lookup in the manner of the \<open>publicsuffix\<close> package, which
  lower-cases its argument: \<open>"Com"\<close> has the suffix \<open>"com"\<close>, every other name
  here is registered under \<open>"example.com"\<close>.
\<close>

definition ex_psl :: "string \<Rightarrow> string" where
  "ex_psl d = (if d = ''Com'' then ''com'' else ''example.com'')"

text \<open>A stand-in for the MD5 digest: one fixed label.\<close>

definition ex_md5 :: "string \<Rightarrow> string" where
  "ex_md5 d = ''5ababd603b22780302dd8d83498e5172''"

definition ex_ns :: "string set" where
  "ex_ns = {''203.0.113.1'', ''203.0.113.2''}"

text \<open>After a successful bootstrap, before any candidate.\<close>

definition ex_ready :: state where
  "ex_ready = \<lparr>resolver = Some ex_ns, black_list = Map.empty, trace = []\<rparr>"

text \<open>A zone where \<open>www.example.com\<close> answers both an A and a CNAME query and no
  other name resolves.\<close>

definition ex_net_both :: network where
  "ex_net_both =
     \<lparr>sys_query_ns = (\<lambda>h. None),
      sys_query_a = (\<lambda>h. None),
      query_a = (\<lambda>ns h. if h = ''www.example.com''
                          then Some [A_result ''198.51.100.50'' 3600] else None),
      query_cname = (\<lambda>ns h. if h = ''www.example.com''
                              then Some (CNAME_result ''host.example.net'' 60) else None)\<rparr>"

text \<open>A zone where \<open>www.example.com\<close> has a CNAME and no A answer.\<close>

definition ex_net_cname :: network where
  "ex_net_cname =
     \<lparr>sys_query_ns = (\<lambda>h. None),
      sys_query_a = (\<lambda>h. None),
      query_a = (\<lambda>ns h. None),
      query_cname = (\<lambda>ns h. if h = ''www.example.com''
                              then Some (CNAME_result ''host.example.net'' 60) else None)\<rparr>"

text \<open>A wildcard zone whose answer for the synthetic name lists one address twice.\<close>

definition ex_net_dup :: network where
  "ex_net_dup =
     \<lparr>sys_query_ns = (\<lambda>h. None),
      sys_query_a = (\<lambda>h. None),
      query_a = (\<lambda>ns h. if h = ''5ababd603b22780302dd8d83498e5172.example.com''
                          then Some [A_result ''198.51.100.9'' 300, A_result ''198.51.100.9'' 300]
                          else None),
      query_cname = (\<lambda>ns h. None)\<rparr>"

text \<open>\<open>example.com\<close> has two NS hosts; the address of the first cannot be looked up.\<close>

definition ex_net_ns_partial :: network where
  "ex_net_ns_partial =
     \<lparr>sys_query_ns = (\<lambda>h. if h = ''example.com''
                            then Some [NS_result ''ns1.example.com'', NS_result ''ns2.example.com'']
                            else None),
      sys_query_a = (\<lambda>h. if h = ''ns2.example.com''
                           then Some [A_result ''203.0.113.2'' 300] else None),
      query_a = (\<lambda>ns h. None),
      query_cname = (\<lambda>ns h. None)\<rparr>"

text \<open>No query is ever answered.\<close>

definition ex_net_down :: network where
  "ex_net_down =
     \<lparr>sys_query_ns = (\<lambda>h. None),
      sys_query_a = (\<lambda>h. None),
      query_a = (\<lambda>ns h. None),
      query_cname = (\<lambda>ns h. None)\<rparr>"

text \<open>The black list after the wildcard zone of \<open>example.com\<close> answered the synthetic
  name with \<open>198.51.100.9\<close> (TTL 300), and after a zone without wildcard.\<close>

definition ex_wild_record :: Record where
  "ex_wild_record =
     \<lparr>domain = ''example.com'', type = QUERY_TYPE_A, ttl = 300, answer = [''198.51.100.9'']\<rparr>"

definition ex_wild :: state where
  "ex_wild =
     \<lparr>resolver = Some ex_ns, black_list = [''example.com'' \<mapsto> ex_wild_record], trace = []\<rparr>"

definition ex_plain_record :: Record where
  "ex_plain_record =
     \<lparr>domain = ''example.com'', type = QUERY_TYPE_A, ttl = - 1, answer = []\<rparr>"

definition ex_plain :: state where
  "ex_plain =
     \<lparr>resolver = Some ex_ns, black_list = [''example.com'' \<mapsto> ex_plain_record], trace = []\<rparr>"

text \<open>Candidate records as \<open>query_a_cname\<close> builds them.\<close>

definition ex_random_a :: Record where
  "ex_random_a =
     \<lparr>domain = ''random123.example.com'', type = QUERY_TYPE_A, ttl = 300,
      answer = [''198.51.100.9'']\<rparr>"

definition ex_random_cname :: Record where
  "ex_random_cname =
     \<lparr>domain = ''random123.example.com'', type = QUERY_TYPE_CNAME, ttl = 60,
      answer = [''198.51.100.9'']\<rparr>"

definition ex_mail_a :: Record where
  "ex_mail_a =
     \<lparr>domain = ''mail.example.com'', type = QUERY_TYPE_A, ttl = 3600,
      answer = [''198.51.100.50'']\<rparr>"

text \<open>A candidate whose parent domain has a character outside ASCII (\<open>u\<close> with
  diaeresis, code point 252).\<close>

definition ex_idn_parent :: string where
  "ex_idn_parent = ''b'' @ [CHR 0xFC] @ ''cher.example.com''"

definition ex_idn :: string where
  "ex_idn = ''www.'' @ ex_idn_parent"

section \<open>Facts about the helpers\<close>

lemmas ex_simps =
  parent_domain_def is_root_domain_def ex_psl_def ex_wild_def ex_plain_def
  ex_wild_record_def ex_plain_record_def ex_random_a_def ex_random_cname_def ex_mail_a_def

lemma str_index_None: "str_index d c = None \<longleftrightarrow> c \<notin> set d"
  by (induction d) auto

lemma str_index_Some: "str_index d c = Some i \<Longrightarrow> c \<in> set d"
  using str_index_None [of d c] by auto

lemma str_index_split: "c \<notin> set l \<Longrightarrow> str_index (l @ c # r) c = Some (length l)"
  by (induction l) auto

lemmas zone_simps =
  ex_md5_def ex_ns_def ex_ready_def ex_net_both_def ex_net_cname_def ex_net_dup_def
  ex_net_ns_partial_def ex_net_down_def initial_state_def

lemmas run_simps =
  query_a_cname_def query_pan_dns_def run_thread_def is_pan_dns_def Record_init_def is_ascii_def
  pipeline_queries_def baseline_queries_def py_in_def query_ns_def query_loop_def add_hosts_def
  Let_def

section \<open>Facts about the populator\<close>

text \<open>A result object is never found among the strings of an answer list, so the
  inner loop of the A branch appends every host it is given.\<close>

lemma py_in_result_strs [simp]: "\<not> py_in (PResult x) (map PStr ys)"
  by (auto simp: py_in_def)

lemma append_hosts_all:
  "append_hosts rs r = r\<lparr>answer := answer r @ map a_host rs\<rparr>"
  by (induction rs arbitrary: r) simp_all

text \<open>The loop of the populator touches the trace only: one event per query.\<close>

lemma pan_dns_kinds_state:
  "snd (pan_dns_kinds net ns d sub kinds r s)
     = s\<lparr>trace := trace s @ map (BaselineQuery d sub) kinds\<rparr>"
  by (induction net ns d sub kinds r s rule: pan_dns_kinds.induct) simp_all

lemma baseline_queries_append [simp]:
  "baseline_queries p (xs @ ys) = baseline_queries p xs @ baseline_queries p ys"
  by (simp add: baseline_queries_def)

lemma pipeline_queries_append [simp]:
  "pipeline_queries (xs @ ys) = pipeline_queries xs @ pipeline_queries ys"
  by (simp add: pipeline_queries_def)

lemma query_pan_dns_resolver: "resolver (snd (query_pan_dns md5 net d s)) = resolver s"
  using pan_dns_kinds_state
    [of net _ d "md5 d @ ''.'' @ d" "[QA, QCNAME]" "Record_init d QUERY_TYPE_A (- 1) []" s]
  by (auto simp: query_pan_dns_def Let_def split: option.splits prod.splits)

lemma query_pan_dns_pipeline:
  "pipeline_queries (trace (snd (query_pan_dns md5 net d s))) = pipeline_queries (trace s)"
  using pan_dns_kinds_state
    [of net _ d "md5 d @ ''.'' @ d" "[QA, QCNAME]" "Record_init d QUERY_TYPE_A (- 1) []" s]
  by (auto simp: query_pan_dns_def Let_def pipeline_queries_def split: option.splits prod.splits)

text \<open>A population for the parent \<open>d\<close> leaves the entry and the queries of every
  other parent alone.\<close>

lemma query_pan_dns_other:
  assumes "p \<noteq> d"
  shows "black_list (snd (query_pan_dns md5 net d s)) p = black_list s p
       \<and> baseline_queries p (trace (snd (query_pan_dns md5 net d s)))
           = baseline_queries p (trace s)"
  using assms pan_dns_kinds_state
    [of net _ d "md5 d @ ''.'' @ d" "[QA, QCNAME]" "Record_init d QUERY_TYPE_A (- 1) []" s]
  by (auto simp: query_pan_dns_def Let_def baseline_queries_def split: option.splits prod.splits)

text \<open>With a resolver and an ASCII parent the populator returns, and the entry is
  there whatever the two queries gave.\<close>

lemma query_pan_dns_completes:
  assumes "resolver s = Some ns" and "is_ascii d"
  shows "\<exists>s'. query_pan_dns md5 net d s = (Inr (), s') \<and> black_list s' d \<noteq> None"
  using assms by (auto simp: query_pan_dns_def Let_def split: prod.splits)

section \<open>Facts about the pipeline\<close>

lemma query_kinds_state:
  "resolver (snd (query_kinds net d kinds s)) = resolver s
   \<and> black_list (snd (query_kinds net d kinds s)) = black_list s
   \<and> baseline_queries p (trace (snd (query_kinds net d kinds s))) = baseline_queries p (trace s)"
  by (induction net d kinds s rule: query_kinds.induct)
     (auto simp: baseline_queries_def split: option.splits)

text \<open>The two rounds of the loop of \<open>query_a_cname\<close>, once a resolver exists.\<close>

lemma query_kinds_resolved:
  assumes "resolver s = Some ns"
  shows "query_kinds net d [QA, QCNAME] s =
    (case query_a net ns d of
       Some (r # rs) \<Rightarrow>
         (Some (Record_init d QUERY_TYPE_A (a_ttl r) (map a_host (r # rs))),
          s\<lparr>trace := trace s @ [PipelineQuery d QA]\<rparr>)
     | _ \<Rightarrow>
         (case query_cname net ns d of
            Some c \<Rightarrow>
              (Some (Record_init d QUERY_TYPE_CNAME
                       (if cname_ttl c \<noteq> 0 then cname_ttl c else - 1) [cname c]),
               s\<lparr>trace := trace s @ [PipelineQuery d QA, PipelineQuery d QCNAME]\<rparr>)
          | None \<Rightarrow>
              (None, s\<lparr>trace := trace s @ [PipelineQuery d QA, PipelineQuery d QCNAME]\<rparr>)))"
  using assms by (simp split: option.split list.split)

lemma snd_query_a_cname:
  "snd (query_a_cname psl md5 net d s) =
     (case parent_domain psl d of
        Inl e \<Rightarrow> s
      | Inr parent \<Rightarrow>
          snd (query_kinds net d [QA, QCNAME]
                 (if black_list s parent = None
                  then run_thread (query_pan_dns md5 net parent) s else s)))"
  unfolding query_a_cname_def Let_def
  by (simp split: sum.split prod.split option.split del: query_kinds.simps)

text \<open>The state in which the loop of \<open>query_a_cname\<close> starts.\<close>

lemma populated:
  assumes "resolver s = Some ns" and "is_ascii p"
    and "s1 = (if black_list s p = None then run_thread (query_pan_dns md5 net p) s else s)"
  shows "resolver s1 = Some ns \<and> black_list s1 p \<noteq> None
       \<and> pipeline_queries (trace s1) = pipeline_queries (trace s)"
proof (cases "black_list s p = None")
  case True
  from query_pan_dns_completes [OF assms(1,2), of md5 net]
  obtain s' where "query_pan_dns md5 net p s = (Inr (), s')" "black_list s' p \<noteq> None"
    by blast
  with True query_pan_dns_resolver [of md5 net p s] query_pan_dns_pipeline [of md5 net p s]
    assms(1)
  show ?thesis by (simp add: assms(3) run_thread_def)
next
  case False
  with assms(1) show ?thesis by (auto simp: assms(3))
qed

lemma is_pan_dns_cname_single:
  assumes "parent_domain psl d = Inr p" and "black_list s p = Some b"
  shows "is_pan_dns psl s (Record_init d QUERY_TYPE_CNAME t [c]) = Inr (c \<in> set (answer b))"
  using assms by (auto simp: is_pan_dns_def Record_init_def)

lemma is_pan_dns_a_record:
  assumes "parent_domain psl d = Inr p" and "black_list s p = Some b"
  shows "is_pan_dns psl s (Record_init d QUERY_TYPE_A t (x # xs))
       = Inr (answer b \<noteq> [] \<and> list_all (\<lambda>a. a \<in> set (answer b)) (x # xs) \<and> t = ttl b)"
  using assms by (auto simp: is_pan_dns_def Record_init_def)

lemma is_pan_dns_trace [simp]: "is_pan_dns psl (s\<lparr>trace := tr\<rparr>) r = is_pan_dns psl s r"
  by (simp add: is_pan_dns_def split: sum.split)

text \<open>Once the entry of a parent is in the black list, no query of the pipeline
  changes it or sends a baseline query for that parent.\<close>

lemma query_a_cname_keeps:
  assumes "black_list s p \<noteq> None"
  shows "black_list (snd (query_a_cname psl md5 net d s)) p = black_list s p
       \<and> baseline_queries p (trace (snd (query_a_cname psl md5 net d s)))
           = baseline_queries p (trace s)"
proof (cases "parent_domain psl d")
  case (Inl e)
  then show ?thesis by (simp add: snd_query_a_cname)
next
  case (Inr parent)
  define s1 where "s1 = (if black_list s parent = None
                     then run_thread (query_pan_dns md5 net parent) s else s)"
  have s1: "black_list s1 p = black_list s p
      \<and> baseline_queries p (trace s1) = baseline_queries p (trace s)"
  proof (cases "black_list s parent = None")
    case True
    with assms have "p \<noteq> parent" by auto
    from query_pan_dns_other [OF this] True show ?thesis
      by (simp add: s1_def run_thread_def)
  next
    case False
    then show ?thesis by (auto simp: s1_def)
  qed
  have "snd (query_a_cname psl md5 net d s) = snd (query_kinds net d [QA, QCNAME] s1)"
    using Inr by (simp add: snd_query_a_cname s1_def)
  with s1 query_kinds_state [of net d "[QA, QCNAME]" s1 p] show ?thesis
    by (simp del: query_kinds.simps)
qed

lemma consume_keeps:
  assumes "black_list s p \<noteq> None"
  shows "black_list (snd (consume psl md5 net queue s)) p = black_list s p
       \<and> baseline_queries p (trace (snd (consume psl md5 net queue s)))
           = baseline_queries p (trace s)"
  using assms
proof (induction queue arbitrary: s)
  case Nil
  then show ?case by simp
next
  case (Cons item queue)
  show ?case
  proof (cases item)
    case None
    then show ?thesis by simp
  next
    case (Some sub_domain)
    obtain r s' where q: "query_a_cname psl md5 net sub_domain s = (r, s')"
      by (cases "query_a_cname psl md5 net sub_domain s")
    from query_a_cname_keeps [OF Cons.prems, of psl md5 net sub_domain] q
    have keep: "black_list s' p = black_list s p"
      "baseline_queries p (trace s') = baseline_queries p (trace s)" by simp_all
    with Cons.prems have there: "black_list s' p \<noteq> None" by simp
    show ?thesis
    proof (cases r)
      case (Inl e)
      with q keep Some show ?thesis by simp
    next
      case (Inr ro)
      show ?thesis
      proof (cases ro)
        case None
        with Inr q keep Some Cons.IH [OF there] show ?thesis by simp
      next
        case (Some found)
        have "black_list (s'\<lparr>trace := trace s' @ [LogInfo found]\<rparr>) p \<noteq> None"
          using there by simp
        from Cons.IH [OF this] Inr q keep Some \<open>item = Some sub_domain\<close>
        show ?thesis by (simp add: baseline_queries_def)
      qed
    qed
  qed
qed

text \<open>A population either ends at an exception with the globals untouched, or
  stores the entry of its parent after exactly its two queries.\<close>

lemma query_pan_dns_cases:
  "snd (query_pan_dns md5 net d s) = s
   \<or> (black_list (snd (query_pan_dns md5 net d s)) d \<noteq> None
      \<and> baseline_queries d (trace (snd (query_pan_dns md5 net d s)))
          = baseline_queries d (trace s) @ baseline_pair md5 d)"
  using pan_dns_kinds_state
    [of net _ d "md5 d @ ''.'' @ d" "[QA, QCNAME]" "Record_init d QUERY_TYPE_A (- 1) []" s]
  by (auto simp: query_pan_dns_def Let_def baseline_queries_def baseline_pair_def
           split: option.splits prod.splits)

text \<open>While the entry of a parent is missing, a query of the pipeline leaves it
  missing and sends no baseline query for it, or stores it after the two queries
  of one population; so does any run of the loop, and \<open>query_loop\<close> as a whole.\<close>

lemma query_a_cname_step:
  assumes "black_list s p = None"
  shows "(black_list (snd (query_a_cname psl md5 net d s)) p = None
          \<and> baseline_queries p (trace (snd (query_a_cname psl md5 net d s)))
              = baseline_queries p (trace s))
       \<or> (black_list (snd (query_a_cname psl md5 net d s)) p \<noteq> None
          \<and> baseline_queries p (trace (snd (query_a_cname psl md5 net d s)))
              = baseline_queries p (trace s) @ baseline_pair md5 p)"
proof (cases "parent_domain psl d")
  case (Inl e)
  with assms show ?thesis by (simp add: snd_query_a_cname)
next
  case (Inr parent)
  define s1 where "s1 = (if black_list s parent = None
                     then run_thread (query_pan_dns md5 net parent) s else s)"
  have s1: "(black_list s1 p = None \<and> baseline_queries p (trace s1) = baseline_queries p (trace s))
      \<or> (black_list s1 p \<noteq> None
          \<and> baseline_queries p (trace s1) = baseline_queries p (trace s) @ baseline_pair md5 p)"
  proof (cases "parent = p")
    case True
    with assms query_pan_dns_cases [of md5 net p s] show ?thesis
      by (auto simp: s1_def run_thread_def)
  next
    case False
    then have "p \<noteq> parent" by simp
    from query_pan_dns_other [OF this, of md5 net s] assms show ?thesis
      by (auto simp: s1_def run_thread_def)
  qed
  have "snd (query_a_cname psl md5 net d s) = snd (query_kinds net d [QA, QCNAME] s1)"
    using Inr by (simp add: snd_query_a_cname s1_def)
  with s1 query_kinds_state [of net d "[QA, QCNAME]" s1 p] show ?thesis
    by (simp del: query_kinds.simps)
qed

lemma consume_step:
  "(black_list (snd (consume psl md5 net queue s)) p = black_list s p
      \<and> baseline_queries p (trace (snd (consume psl md5 net queue s)))
          = baseline_queries p (trace s))
   \<or> (black_list s p = None \<and> black_list (snd (consume psl md5 net queue s)) p \<noteq> None
      \<and> baseline_queries p (trace (snd (consume psl md5 net queue s)))
          = baseline_queries p (trace s) @ baseline_pair md5 p)"
proof (cases "black_list s p = None")
  case False
  with consume_keeps [of s p psl md5 net queue] show ?thesis by simp
next
  case True
  then show ?thesis
  proof (induction queue arbitrary: s)
    case Nil
    then show ?case by simp
  next
    case (Cons item queue)
    show ?case
    proof (cases item)
      case None
      then show ?thesis by simp
    next
      case (Some sub_domain)
      obtain r s' where q: "query_a_cname psl md5 net sub_domain s = (r, s')"
        by (cases "query_a_cname psl md5 net sub_domain s")
      define s'' where "s'' = (case r of Inr (Some found) \<Rightarrow> s'\<lparr>trace := trace s' @ [LogInfo found]\<rparr> | _ \<Rightarrow> s')"
      have frame: "black_list s'' p = black_list s' p"
        "baseline_queries p (trace s'') = baseline_queries p (trace s')"
        by (auto simp: s''_def baseline_queries_def split: sum.splits option.splits)
      have next_state: "snd (consume psl md5 net (item # queue) s) =
          (case r of Inl e \<Rightarrow> s' | Inr ro \<Rightarrow> snd (consume psl md5 net queue s''))"
        using q Some by (auto simp: s''_def split: sum.splits option.splits)
      from query_a_cname_step [OF Cons.prems, of psl md5 net sub_domain] q
      have step: "(black_list s' p = None
            \<and> baseline_queries p (trace s') = baseline_queries p (trace s))
         \<or> (black_list s' p \<noteq> None
            \<and> baseline_queries p (trace s') = baseline_queries p (trace s) @ baseline_pair md5 p)"
        by simp
      show ?thesis
      proof (cases r)
        case (Inl e)
        with next_state step Cons.prems show ?thesis by auto
      next
        case (Inr ro)
        from step show ?thesis
        proof
          assume a: "black_list s' p = None
            \<and> baseline_queries p (trace s') = baseline_queries p (trace s)"
          with frame have "black_list s'' p = None" by simp
          from Cons.IH [OF this] a frame Inr next_state Cons.prems show ?thesis by auto
        next
          assume a: "black_list s' p \<noteq> None
            \<and> baseline_queries p (trace s') = baseline_queries p (trace s) @ baseline_pair md5 p"
          with frame have "black_list s'' p \<noteq> None" by simp
          from consume_keeps [OF this, of psl md5 net queue] a frame Inr next_state Cons.prems
          show ?thesis by auto
        qed
      qed
    qed
  qed
qed

lemma query_ns_frame:
  "black_list (snd (query_ns net d s)) = black_list s
   \<and> baseline_queries p (trace (snd (query_ns net d s))) = baseline_queries p (trace s)"
proof -
  have "baseline_queries p (map (\<lambda>ns_record. BootstrapA (ns_host ns_record)) rs) = []" for rs
    by (induction rs) (simp_all add: baseline_queries_def)
  then show ?thesis
    by (auto simp: query_ns_def Let_def split: option.splits prod.splits)
       (simp_all add: baseline_queries_def)
qed

lemma query_loop_step:
  "(black_list (snd (query_loop psl md5 net root queue s)) p = black_list s p
      \<and> baseline_queries p (trace (snd (query_loop psl md5 net root queue s)))
          = baseline_queries p (trace s))
   \<or> (black_list s p = None \<and> black_list (snd (query_loop psl md5 net root queue s)) p \<noteq> None
      \<and> baseline_queries p (trace (snd (query_loop psl md5 net root queue s)))
          = baseline_queries p (trace s) @ baseline_pair md5 p)"
proof -
  define s1 where "s1 = (if resolver s = None then run_thread (query_ns net root) s else s)"
  have s1: "black_list s1 = black_list s"
    "baseline_queries p (trace s1) = baseline_queries p (trace s)"
    using query_ns_frame [of net root s p] by (auto simp: s1_def run_thread_def)
  have "query_loop psl md5 net root queue s = consume psl md5 net queue s1"
    by (simp add: query_loop_def s1_def)
  with consume_step [of psl md5 net queue s1 p] s1 show ?thesis by simp
qed

section \<open>The wildcard decision\<close>

text \<open>
  Claim C4. A record of kind A whose answers all occur in the non-empty baseline
  answer of its parent domain is a wildcard exactly when its TTL equals the
  baseline TTL: \<open>_is_pan_dns\<close> returns false when the TTLs differ and true when
  they are equal.
\<close>

theorem is_pan_dns_a_subset:
  assumes "parent_domain psl (domain r) = Inr p"
    and "black_list s p = Some b"
    and "answer b \<noteq> []"
    and "type r = QUERY_TYPE_A"
    and "answer r \<noteq> []"
    and "set (answer r) \<subseteq> set (answer b)"
  shows "is_pan_dns psl s r = Inr (ttl r = ttl b)"
  using assms by (auto simp: is_pan_dns_def list_all_iff)

theorem is_pan_dns_a_subset_witness:
  "is_pan_dns ex_psl ex_wild ex_random_a = Inr (ttl ex_random_a = ttl ex_wild_record)
   \<and> ttl ex_random_a = ttl ex_wild_record
   \<and> is_pan_dns ex_psl ex_wild (ex_random_a\<lparr>ttl := 3600\<rparr>)
       = Inr (ttl (ex_random_a\<lparr>ttl := 3600\<rparr>) = ttl ex_wild_record)
   \<and> ttl (ex_random_a\<lparr>ttl := 3600\<rparr>) \<noteq> ttl ex_wild_record"
proof (intro conjI)
  show "is_pan_dns ex_psl ex_wild ex_random_a = Inr (ttl ex_random_a = ttl ex_wild_record)"
    by (rule is_pan_dns_a_subset [where p = "''example.com''" and b = ex_wild_record])
       (simp_all add: ex_simps)
  show "ttl ex_random_a = ttl ex_wild_record"
    by (simp add: ex_simps)
  show "is_pan_dns ex_psl ex_wild (ex_random_a\<lparr>ttl := 3600\<rparr>)
          = Inr (ttl (ex_random_a\<lparr>ttl := 3600\<rparr>) = ttl ex_wild_record)"
    by (rule is_pan_dns_a_subset [where p = "''example.com''" and b = ex_wild_record])
       (simp_all add: ex_simps)
  show "ttl (ex_random_a\<lparr>ttl := 3600\<rparr>) \<noteq> ttl ex_wild_record"
    by (simp add: ex_simps)
qed

text \<open>
  Claim C5. A record of kind CNAME whose single answer occurs in the non-empty
  baseline answer of its parent domain is a wildcard, whatever the two TTLs are.
\<close>

theorem is_pan_dns_cname_member:
  assumes "parent_domain psl (domain r) = Inr p"
    and "black_list s p = Some b"
    and "answer b \<noteq> []"
    and "type r = QUERY_TYPE_CNAME"
    and "answer r = [c]"
    and "c \<in> set (answer b)"
  shows "is_pan_dns psl s r = Inr True"
  using assms by (simp add: is_pan_dns_def)

theorem is_pan_dns_cname_member_witness:
  "is_pan_dns ex_psl ex_wild ex_random_cname = Inr True
   \<and> ttl ex_random_cname \<noteq> ttl ex_wild_record"
proof
  show "is_pan_dns ex_psl ex_wild ex_random_cname = Inr True"
    by (rule is_pan_dns_cname_member
          [where p = "''example.com''" and b = ex_wild_record and c = "''198.51.100.9''"])
       (simp_all add: ex_simps)
  show "ttl ex_random_cname \<noteq> ttl ex_wild_record"
    by (simp add: ex_simps)
qed

text \<open>
  Claim C6. When the cached baseline of the parent domain has an empty answer,
  \<open>_is_pan_dns\<close> returns false for a record of any kind.
\<close>

theorem is_pan_dns_empty_baseline:
  assumes "parent_domain psl (domain r) = Inr p"
    and "black_list s p = Some b"
    and "answer b = []"
  shows "is_pan_dns psl s r = Inr False"
  using assms by (simp add: is_pan_dns_def)

theorem is_pan_dns_empty_baseline_witness:
  "is_pan_dns ex_psl ex_plain ex_mail_a = Inr False"
  by (rule is_pan_dns_empty_baseline [where p = "''example.com''" and b = ex_plain_record])
     (simp_all add: ex_simps)

section \<open>The parent domain\<close>

text \<open>
  Claim C8, as the code has it. On a root domain \<open>_parent_domain\<close> returns the
  domain unchanged; on any other domain that contains a dot it returns what
  follows the first dot, that is the domain without its leftmost label.
\<close>

theorem parent_domain_root_or_strip:
  "(is_root_domain psl d \<longrightarrow> parent_domain psl d = Inr d)
   \<and> (\<not> is_root_domain psl d \<and> d = l @ ''.'' @ r \<and> CHR ''.'' \<notin> set l
        \<longrightarrow> parent_domain psl d = Inr r)"
  by (auto simp: parent_domain_def str_index_split)

theorem parent_domain_root_or_strip_witness:
  "parent_domain ex_psl ''example.com'' = Inr ''example.com''
   \<and> parent_domain ex_psl ''a.b.example.com'' = Inr ''b.example.com''"
proof -
  have root: "is_root_domain ex_psl ''example.com''"
    by (simp add: ex_simps)
  have sub: "\<not> is_root_domain ex_psl ''a.b.example.com''
     \<and> ''a.b.example.com'' = ''a'' @ ''.'' @ ''b.example.com''
     \<and> CHR ''.'' \<notin> set ''a''"
    by (simp add: ex_simps)
  from root have "parent_domain ex_psl ''example.com'' = Inr ''example.com''"
    using parent_domain_root_or_strip [of ex_psl "''example.com''"] by blast
  moreover from sub have "parent_domain ex_psl ''a.b.example.com'' = Inr ''b.example.com''"
    using parent_domain_root_or_strip [of ex_psl "''a.b.example.com''" "''a''" "''b.example.com''"]
    by blast
  ultimately show ?thesis by blast
qed

text \<open>
  Claim C8 as stated promises a remainder for every domain that is not a root
  domain. \<open>"Com"\<close> is not one (its public suffix is \<open>"com"\<close>) and has no dot:
  \<open>str.index\<close> raises and no string is returned.
\<close>

theorem parent_domain_no_dot_counterexample:
  "\<not> is_root_domain ex_psl ''Com'' \<and> parent_domain ex_psl ''Com'' = Inl ValueError"
  by (simp add: ex_simps)

text \<open>
  Claim C10. \<open>_parent_domain\<close> raises \<open>ValueError\<close> on every input that is not a
  root domain and contains no dot, and returns a string on every other input.
\<close>

theorem parent_domain_partial:
  "(\<not> is_root_domain psl d \<and> CHR ''.'' \<notin> set d \<longrightarrow> parent_domain psl d = Inl ValueError)
   \<and> (\<not> (\<not> is_root_domain psl d \<and> CHR ''.'' \<notin> set d)
        \<longrightarrow> (\<exists>r. parent_domain psl d = Inr r))"
  by (auto simp: parent_domain_def str_index_None dest: str_index_Some split: option.splits)

theorem parent_domain_partial_witness:
  "parent_domain ex_psl ''Com'' = Inl ValueError
   \<and> (\<exists>r. parent_domain ex_psl ''www.example.com'' = Inr r)"
proof -
  have a: "\<not> is_root_domain ex_psl ''Com'' \<and> CHR ''.'' \<notin> set ''Com''"
    by (simp add: ex_simps)
  have b: "\<not> (\<not> is_root_domain ex_psl ''www.example.com''
              \<and> CHR ''.'' \<notin> set ''www.example.com'')"
    by (simp add: ex_simps)
  from a have "parent_domain ex_psl ''Com'' = Inl ValueError"
    using parent_domain_partial [of ex_psl "''Com''"] by blast
  moreover from b have "\<exists>r. parent_domain ex_psl ''www.example.com'' = Inr r"
    using parent_domain_partial [of ex_psl "''www.example.com''"] by blast
  ultimately show ?thesis by blast
qed

section \<open>Order of the two lookups\<close>

text \<open>
  Claim C1, as the code has it. With a resolver in place and an ASCII parent
  domain, \<open>query_a_cname\<close> sends the A query first. A non-empty A answer ends
  the loop: no CNAME query is sent and the candidate is a record of kind A. Only
  when the A query failed or gave no record is the CNAME query sent; when it then
  succeeds, the candidate is a record of kind CNAME with the TTL of the answer
  (\<open>-1\<close> when that is \<open>0\<close>) and the one-element answer holding the canonical
  name. The candidate is returned unless the wildcard check suppresses it.
\<close>

theorem query_a_cname_a_then_cname:
  assumes "resolver s = Some ns" and "parent_domain psl d = Inr p" and "is_ascii p"
  shows "\<exists>b. black_list (snd (query_a_cname psl md5 net d s)) p = Some b \<and>
    (case query_a net ns d of
       Some (r # rs) \<Rightarrow>
         pipeline_queries (trace (snd (query_a_cname psl md5 net d s)))
            = pipeline_queries (trace s) @ [PipelineQuery d QA]
         \<and> fst (query_a_cname psl md5 net d s) =
             Inr (if answer b \<noteq> []
                     \<and> list_all (\<lambda>a. a \<in> set (answer b)) (map a_host (r # rs))
                     \<and> a_ttl r = ttl b
                  then None
                  else Some \<lparr>domain = d, type = QUERY_TYPE_A, ttl = a_ttl r,
                             answer = map a_host (r # rs)\<rparr>)
     | _ \<Rightarrow>
         pipeline_queries (trace (snd (query_a_cname psl md5 net d s)))
            = pipeline_queries (trace s) @ [PipelineQuery d QA, PipelineQuery d QCNAME]
         \<and> (case query_cname net ns d of
               None \<Rightarrow> fst (query_a_cname psl md5 net d s) = Inr None
             | Some c \<Rightarrow>
                 fst (query_a_cname psl md5 net d s) =
                   Inr (if cname c \<in> set (answer b) then None
                        else Some \<lparr>domain = d, type = QUERY_TYPE_CNAME,
                                   ttl = (if cname_ttl c \<noteq> 0 then cname_ttl c else - 1),
                                   answer = [cname c]\<rparr>)))"
proof -
  define s1
    where "s1 = (if black_list s p = None then run_thread (query_pan_dns md5 net p) s else s)"
  from populated [OF assms(1,3) s1_def]
  have s1: "resolver s1 = Some ns" "black_list s1 p \<noteq> None"
    "pipeline_queries (trace s1) = pipeline_queries (trace s)"
    by simp_all
  then obtain b where b: "black_list s1 p = Some b" by auto
  have unfold: "query_a_cname psl md5 net d s =
      (case query_kinds net d [QA, QCNAME] s1 of
         (None, s2) \<Rightarrow> (Inr None, s2)
       | (Some r, s2) \<Rightarrow>
           (case is_pan_dns psl s2 r of
              Inl e \<Rightarrow> (Inl e, s2)
            | Inr pan \<Rightarrow> (Inr (if pan then None else Some r), s2)))"
    using assms(2) unfolding query_a_cname_def Let_def s1_def
    by (simp split: prod.split option.split del: query_kinds.simps)
  note pan_a = is_pan_dns_a_record [OF assms(2) b]
  note pan_c = is_pan_dns_cname_single [OF assms(2) b]
  show ?thesis
  proof (cases "query_a net ns d")
    case None
    with s1 b pan_c show ?thesis
      unfolding unfold query_kinds_resolved [OF s1(1)]
      by (auto simp: Record_init_def pipeline_queries_def split: option.split)
  next
    case (Some rs)
    show ?thesis
    proof (cases rs)
      case Nil
      with Some s1 b pan_c show ?thesis
        unfolding unfold query_kinds_resolved [OF s1(1)]
        by (auto simp: Record_init_def pipeline_queries_def split: option.split)
    next
      case (Cons r rs')
      with Some s1 b pan_a [of "a_ttl r" "a_host r" "map a_host rs'"] show ?thesis
        unfolding unfold query_kinds_resolved [OF s1(1)]
        by (auto simp: Record_init_def pipeline_queries_def)
    qed
  qed
qed

theorem query_a_cname_a_then_cname_witness:
  "fst (query_a_cname ex_psl ex_md5 ex_net_cname ''www.example.com'' ex_ready)
       = Inr (Some \<lparr>domain = ''www.example.com'', type = QUERY_TYPE_CNAME, ttl = 60,
                    answer = [''host.example.net'']\<rparr>)
   \<and> pipeline_queries
        (trace (snd (query_a_cname ex_psl ex_md5 ex_net_cname ''www.example.com'' ex_ready)))
       = [PipelineQuery ''www.example.com'' QA, PipelineQuery ''www.example.com'' QCNAME]"
proof -
  have r: "resolver ex_ready = Some ex_ns"
    by (simp add: ex_ready_def)
  have p: "parent_domain ex_psl ''www.example.com'' = Inr ''example.com''"
    by (simp add: ex_simps)
  have a: "is_ascii ''example.com''"
    by (simp add: is_ascii_def)
  from query_a_cname_a_then_cname [OF r p a, of ex_md5 ex_net_cname]
  obtain b where
    b: "black_list (snd (query_a_cname ex_psl ex_md5 ex_net_cname ''www.example.com'' ex_ready))
          ''example.com'' = Some b"
    and rest: "(case query_a ex_net_cname ex_ns ''www.example.com'' of
       Some (r # rs) \<Rightarrow>
         pipeline_queries (trace (snd (query_a_cname ex_psl ex_md5 ex_net_cname ''www.example.com'' ex_ready)))
            = pipeline_queries (trace ex_ready) @ [PipelineQuery ''www.example.com'' QA]
         \<and> fst (query_a_cname ex_psl ex_md5 ex_net_cname ''www.example.com'' ex_ready) =
             Inr (if answer b \<noteq> []
                     \<and> list_all (\<lambda>a. a \<in> set (answer b)) (map a_host (r # rs))
                     \<and> a_ttl r = ttl b
                  then None
                  else Some \<lparr>domain = ''www.example.com'', type = QUERY_TYPE_A, ttl = a_ttl r,
                             answer = map a_host (r # rs)\<rparr>)
     | _ \<Rightarrow>
         pipeline_queries (trace (snd (query_a_cname ex_psl ex_md5 ex_net_cname ''www.example.com'' ex_ready)))
            = pipeline_queries (trace ex_ready)
                @ [PipelineQuery ''www.example.com'' QA, PipelineQuery ''www.example.com'' QCNAME]
         \<and> (case query_cname ex_net_cname ex_ns ''www.example.com'' of
               None \<Rightarrow> fst (query_a_cname ex_psl ex_md5 ex_net_cname ''www.example.com'' ex_ready) = Inr None
             | Some c \<Rightarrow>
                 fst (query_a_cname ex_psl ex_md5 ex_net_cname ''www.example.com'' ex_ready) =
                   Inr (if cname c \<in> set (answer b) then None
                        else Some \<lparr>domain = ''www.example.com'', type = QUERY_TYPE_CNAME,
                                   ttl = (if cname_ttl c \<noteq> 0 then cname_ttl c else - 1),
                                   answer = [cname c]\<rparr>)))"
    by blast
  have "black_list (snd (query_a_cname ex_psl ex_md5 ex_net_cname ''www.example.com'' ex_ready))
          ''example.com''
        = Some \<lparr>domain = ''example.com'', type = QUERY_TYPE_A, ttl = - 1, answer = []\<rparr>"
    by (simp add: zone_simps run_simps ex_simps)
  with b have "answer b = []" by auto
  with rest show ?thesis
    by (simp add: ex_net_cname_def ex_ready_def pipeline_queries_def)
qed

text \<open>
  Claim C1 as stated puts the CNAME lookup first and lets a CNAME answer suppress
  the A lookup. In a zone where \<open>www.example.com\<close> answers both queries, the CNAME
  query would succeed, yet the only query sent is the A query and the record
  returned is of kind A.
\<close>

theorem query_a_cname_cname_first_counterexample:
  "query_cname ex_net_both ex_ns ''www.example.com'' = Some (CNAME_result ''host.example.net'' 60)
   \<and> fst (query_a_cname ex_psl ex_md5 ex_net_both ''www.example.com'' ex_ready)
       = Inr (Some \<lparr>domain = ''www.example.com'', type = QUERY_TYPE_A, ttl = 3600,
                    answer = [''198.51.100.50'']\<rparr>)
   \<and> pipeline_queries
        (trace (snd (query_a_cname ex_psl ex_md5 ex_net_both ''www.example.com'' ex_ready)))
       = [PipelineQuery ''www.example.com'' QA]"
  by (simp add: zone_simps run_simps ex_simps)

section \<open>The baseline is populated once\<close>

text \<open>
  Claim C7, as the code has it. With a resolver in place, the population attempt
  for an ASCII parent domain returns and leaves a record for that parent in the
  black list, whatever the two queries gave. Once a record for a parent is in
  the black list, every call of \<open>query_a_cname\<close> and every run of the loop of
  \<open>query_loop\<close> over any queue leaves that record as it is and sends no baseline
  query for that parent. And from any state, a whole run of \<open>query_loop\<close> sends
  the baseline queries of a parent at most once: none, or the one A and the one
  CNAME query of a single population.
\<close>

theorem baseline_population_once:
  "(resolver s0 = Some ns \<and> is_ascii p \<longrightarrow>
      (\<exists>s1. query_pan_dns md5 net p s0 = (Inr (), s1) \<and> black_list s1 p \<noteq> None))
   \<and> (black_list s p \<noteq> None \<longrightarrow>
        black_list (snd (query_a_cname psl md5 net d s)) p = black_list s p
        \<and> baseline_queries p (trace (snd (query_a_cname psl md5 net d s)))
            = baseline_queries p (trace s)
        \<and> black_list (snd (consume psl md5 net queue s)) p = black_list s p
        \<and> baseline_queries p (trace (snd (consume psl md5 net queue s)))
            = baseline_queries p (trace s))
   \<and> (baseline_queries p (trace (snd (query_loop psl md5 net root queue s)))
          = baseline_queries p (trace s)
       \<or> baseline_queries p (trace (snd (query_loop psl md5 net root queue s)))
          = baseline_queries p (trace s) @ baseline_pair md5 p)"
proof (intro conjI impI)
  assume "resolver s0 = Some ns \<and> is_ascii p"
  then show "\<exists>s1. query_pan_dns md5 net p s0 = (Inr (), s1) \<and> black_list s1 p \<noteq> None"
    using query_pan_dns_completes [of s0 ns p md5 net] by simp
next
  assume there: "black_list s p \<noteq> None"
  show "black_list (snd (query_a_cname psl md5 net d s)) p = black_list s p"
    using query_a_cname_keeps [OF there] by simp
  show "baseline_queries p (trace (snd (query_a_cname psl md5 net d s)))
          = baseline_queries p (trace s)"
    using query_a_cname_keeps [OF there] by simp
  show "black_list (snd (consume psl md5 net queue s)) p = black_list s p"
    using consume_keeps [OF there] by simp
  show "baseline_queries p (trace (snd (consume psl md5 net queue s)))
          = baseline_queries p (trace s)"
    using consume_keeps [OF there] by simp
next
  show "baseline_queries p (trace (snd (query_loop psl md5 net root queue s)))
          = baseline_queries p (trace s)
       \<or> baseline_queries p (trace (snd (query_loop psl md5 net root queue s)))
          = baseline_queries p (trace s) @ baseline_pair md5 p"
    using query_loop_step [of psl md5 net root queue s p] by blast
qed

theorem baseline_population_once_witness:
  "(\<exists>s1. query_pan_dns ex_md5 ex_net_down ''example.com'' ex_ready = (Inr (), s1)
      \<and> black_list s1 ''example.com'' \<noteq> None)
   \<and> map_option answer
        (black_list (snd (query_pan_dns ex_md5 ex_net_down ''example.com'' ex_ready))
           ''example.com'') = Some []
   \<and> black_list (snd (query_a_cname ex_psl ex_md5 ex_net_down ''mail.example.com'' ex_plain))
        ''example.com'' = black_list ex_plain ''example.com''
   \<and> baseline_queries ''example.com''
        (trace (snd (query_a_cname ex_psl ex_md5 ex_net_down ''mail.example.com'' ex_plain)))
       = baseline_queries ''example.com'' (trace ex_plain)
   \<and> black_list
        (snd (consume ex_psl ex_md5 ex_net_down
               [Some ''www.example.com'', Some ''mail.example.com'', None] ex_plain))
        ''example.com'' = black_list ex_plain ''example.com''
   \<and> baseline_queries ''example.com''
        (trace (snd (consume ex_psl ex_md5 ex_net_down
                      [Some ''www.example.com'', Some ''mail.example.com'', None] ex_plain)))
       = baseline_queries ''example.com'' (trace ex_plain)
   \<and> (baseline_queries ''example.com''
         (trace (snd (query_loop ex_psl ex_md5 ex_net_down ''example.com''
                       [Some ''www.example.com'', Some ''mail.example.com'', None] ex_ready)))
        = baseline_queries ''example.com'' (trace ex_ready)
       \<or> baseline_queries ''example.com''
         (trace (snd (query_loop ex_psl ex_md5 ex_net_down ''example.com''
                       [Some ''www.example.com'', Some ''mail.example.com'', None] ex_ready)))
        = baseline_queries ''example.com'' (trace ex_ready) @ baseline_pair ex_md5 ''example.com'')
   \<and> baseline_queries ''example.com''
         (trace (snd (query_loop ex_psl ex_md5 ex_net_down ''example.com''
                       [Some ''www.example.com'', Some ''mail.example.com'', None] ex_ready)))
        = baseline_pair ex_md5 ''example.com''"
proof -
  have ready: "resolver ex_ready = Some ex_ns \<and> is_ascii ''example.com''"
    by (simp add: ex_ready_def is_ascii_def)
  have cached: "black_list ex_plain ''example.com'' \<noteq> None"
    by (simp add: ex_plain_def)
  note at_ready = baseline_population_once
    [where ?s0.0 = ex_ready and ns = ex_ns and p = "''example.com''" and ?md5.0 = ex_md5
       and net = ex_net_down and s = ex_ready and psl = ex_psl and root = "''example.com''"
       and queue = "[Some ''www.example.com'', Some ''mail.example.com'', None]"]
  note at_plain = baseline_population_once
    [where p = "''example.com''" and ?md5.0 = ex_md5 and net = ex_net_down and s = ex_plain
       and psl = ex_psl and d = "''mail.example.com''"
       and queue = "[Some ''www.example.com'', Some ''mail.example.com'', None]"]
  have stored: "map_option answer
        (black_list (snd (query_pan_dns ex_md5 ex_net_down ''example.com'' ex_ready))
           ''example.com'') = Some []"
    by (simp add: zone_simps run_simps)
  have run: "baseline_queries ''example.com''
         (trace (snd (query_loop ex_psl ex_md5 ex_net_down ''example.com''
                       [Some ''www.example.com'', Some ''mail.example.com'', None] ex_ready)))
        = baseline_pair ex_md5 ''example.com''"
    by (simp add: zone_simps run_simps ex_simps baseline_pair_def)
  from at_ready ready at_plain cached stored run show ?thesis
    by blast
qed

text \<open>
  Claim C7 as stated holds for every parent domain. While no resolver is bound,
  and for a parent domain with a character outside ASCII, the population attempt
  ends at an exception before the store: no record for the parent is in the
  black list after the attempt, nor after the whole call of \<open>query_a_cname\<close>
  that made it.
\<close>

theorem baseline_population_not_stored_counterexample:
  "resolver initial_state = None
   \<and> fst (query_pan_dns ex_md5 ex_net_down ''example.com'' initial_state) = Inl AttributeError
   \<and> black_list (run_thread (query_pan_dns ex_md5 ex_net_down ''example.com'') initial_state)
        ''example.com'' = None
   \<and> parent_domain ex_psl ''www.example.com'' = Inr ''example.com''
   \<and> black_list (snd (query_a_cname ex_psl ex_md5 ex_net_down ''www.example.com'' initial_state))
        ''example.com'' = None
   \<and> resolver ex_ready = Some ex_ns
   \<and> fst (query_pan_dns ex_md5 ex_net_down ex_idn_parent ex_ready) = Inl UnicodeEncodeError
   \<and> black_list (run_thread (query_pan_dns ex_md5 ex_net_down ex_idn_parent) ex_ready)
        ex_idn_parent = None
   \<and> parent_domain ex_psl ex_idn = Inr ex_idn_parent
   \<and> black_list (snd (query_a_cname ex_psl ex_md5 ex_net_down ex_idn ex_ready))
        ex_idn_parent = None"
  by (simp add: zone_simps run_simps ex_simps ex_idn_def ex_idn_parent_def)

section \<open>Where the code leaves its intent\<close>

text \<open>
  Claim C3. The A branch of the populator means to skip addresses that are
  already in the answer, but it looks the result object up among the strings, so
  nothing is ever skipped (\<open>append_hosts_all\<close>). A wildcard answer that lists
  \<open>198.51.100.9\<close> twice is stored with the address twice.
\<close>

theorem query_pan_dns_duplicate_answer:
  "fst (query_pan_dns ex_md5 ex_net_dup ''example.com'' ex_ready) = Inr ()
   \<and> map_option answer
        (black_list (snd (query_pan_dns ex_md5 ex_net_dup ''example.com'' ex_ready))
           ''example.com'')
       = Some [''198.51.100.9'', ''198.51.100.9'']
   \<and> map_option ttl
        (black_list (snd (query_pan_dns ex_md5 ex_net_dup ''example.com'' ex_ready))
           ''example.com'')
       = Some 300"
  by (simp add: zone_simps run_simps)

theorem query_pan_dns_duplicate_answer_witness:
  "map_option answer
     (black_list (snd (query_pan_dns ex_md5 ex_net_dup ''example.com'' ex_ready))
        ''example.com'')
    = Some [''198.51.100.9'', ''198.51.100.9'']"
  using query_pan_dns_duplicate_answer by blast

text \<open>One failing lookup fails the whole batch of \<open>_query_ns\<close>.\<close>

lemma gather_failure: "None \<in> set xs \<Longrightarrow> gather xs = None"
  by (induction xs) (auto split: option.splits)

lemma query_ns_batch_failure:
  assumes "sys_query_ns net d = Some rs" and "rs \<noteq> []"
    and "h \<in> set rs" and "sys_query_a net (ns_host h) = None"
  shows "fst (query_ns net d s) = Inl DNSError \<and> resolver (snd (query_ns net d s)) = resolver s"
proof -
  from assms(3,4) have "None \<in> set (map (\<lambda>ns_record. sys_query_a net (ns_host ns_record)) rs)"
    by force
  from gather_failure [OF this] assms(1,2) show ?thesis
    by (simp add: query_ns_def)
qed

text \<open>
  Claim C2. The batch of A lookups for the NS hosts is gathered without a guard:
  when the lookup of one host raises, \<open>_query_ns\<close> is left by that exception and
  no resolver is built, although the other host resolved.
\<close>

theorem query_ns_single_failure_aborts:
  "sys_query_ns ex_net_ns_partial ''example.com''
       = Some [NS_result ''ns1.example.com'', NS_result ''ns2.example.com'']
   \<and> sys_query_a ex_net_ns_partial ''ns1.example.com'' = None
   \<and> sys_query_a ex_net_ns_partial ''ns2.example.com'' = Some [A_result ''203.0.113.2'' 300]
   \<and> fst (query_ns ex_net_ns_partial ''example.com'' initial_state) = Inl DNSError
   \<and> resolver (snd (query_ns ex_net_ns_partial ''example.com'' initial_state)) = None"
  by (simp add: zone_simps run_simps)

theorem query_ns_single_failure_aborts_witness:
  "resolver (snd (query_ns ex_net_ns_partial ''example.com'' initial_state)) = None"
  using query_ns_single_failure_aborts by blast

text \<open>What \<open>_query_ns\<close> itself does on a failed or empty NS answer, and how
  \<open>query_loop\<close> continues from there.\<close>

lemma query_ns_fatal:
  assumes "sys_query_ns net d = None \<or> sys_query_ns net d = Some []"
  shows "query_ns net d s =
     (Inl (SystemExit 1),
      s\<lparr>trace := trace s @ [BootstrapNS d,
           LogError d [] (if sys_query_ns net d = None then Some DNSError else None)]\<rparr>)"
  using assms by (auto simp: query_ns_def)

lemma query_loop_after_fatal:
  assumes "resolver s = None"
    and "sys_query_ns net d = None \<or> sys_query_ns net d = Some []"
  shows "query_loop psl md5 net d queue s =
     consume psl md5 net queue
       (s\<lparr>trace := trace s @ [BootstrapNS d,
           LogError d [] (if sys_query_ns net d = None then Some DNSError else None)]\<rparr>)"
  using assms(1) query_ns_fatal [OF assms(2)]
  by (simp add: query_loop_def run_thread_def)

text \<open>
  Claim C9. On a failed or empty NS answer \<open>_query_ns\<close> logs the failure, raises
  \<open>SystemExit(1)\<close> and builds no resolver (\<open>query_ns_fatal\<close>). But \<open>query_loop\<close>
  runs it in a thread: the exit ends that thread only, and the loop goes on
  without a resolver and returns normally at the sentinel.
\<close>

theorem query_loop_survives_failed_bootstrap:
  "query_ns ex_net_down ''example.com'' initial_state
     = (Inl (SystemExit 1),
        \<lparr>resolver = None, black_list = Map.empty,
         trace = [BootstrapNS ''example.com'', LogError ''example.com'' [] (Some DNSError)]\<rparr>)
   \<and> query_loop ex_psl ex_md5 ex_net_down ''example.com'' [Some ''www.example.com'', None]
       initial_state
     = (Some (Inr ()),
        \<lparr>resolver = None, black_list = Map.empty,
         trace = [BootstrapNS ''example.com'', LogError ''example.com'' [] (Some DNSError)]\<rparr>)"
  by (simp add: zone_simps run_simps ex_simps)

theorem query_loop_survives_failed_bootstrap_witness:
  "fst (query_loop ex_psl ex_md5 ex_net_down ''example.com'' [Some ''www.example.com'', None]
          initial_state)
    = Some (Inr ())"
  using query_loop_survives_failed_bootstrap by simp

end
